theory Spec2Isabelle
  imports Complex_Main
begin

section \<open>Python values, errors and numeric helpers\<close>

text \<open>
  The scorers receive and return dynamically typed Python values. A dictionary is an
  association list in insertion order with string keys; a lookup reads the first entry
  with the key. Python's \<open>float\<close> is modelled by the real number it approximates: the
  rounding error of binary64 arithmetic is not part of the model, the decimal rounding
  done by \<open>round(x, n)\<close> is.
\<close>

datatype pyval =
    PNone
  | PBool bool
  | PInt int
  | PFloat real
  | PStr string
  | PList "pyval list"
  | PDict "(string \<times> pyval) list"

type_synonym pydict = "(string \<times> pyval) list"

text \<open>
  The exceptions of the modelled code. \<open>BindingError\<close> is what \<open>sqlite3\<close> raises for a
  parameter of an unsupported type (its class name depends on the Python version).
  \<open>NotModelled\<close> marks the one library behaviour left out, \<open>float(s)\<close> parsing a string.
\<close>

datatype py_error =
    ZeroDivisionError
  | ValueError
  | TypeError
  | IntegrityError
  | BindingError
  | OverflowError
  | NotModelled

text \<open>Truth value of an object, as \<open>if v:\<close> and \<open>not v\<close> test it.\<close>

fun truthy :: "pyval \<Rightarrow> bool" where
  "truthy PNone = False"
| "truthy (PBool b) = b"
| "truthy (PInt i) = (i \<noteq> 0)"
| "truthy (PFloat r) = (r \<noteq> 0)"
| "truthy (PStr s) = (s \<noteq> [])"
| "truthy (PList xs) = (xs \<noteq> [])"
| "truthy (PDict d) = (d \<noteq> [])"

text \<open>\<open>d.get(k, default)\<close> on a dictionary.\<close>

definition dict_get :: "pydict \<Rightarrow> string \<Rightarrow> pyval \<Rightarrow> pyval" where
  "dict_get d k dflt = (case map_of d k of None \<Rightarrow> dflt | Some v \<Rightarrow> v)"

text \<open>True division \<open>a / b\<close> raises on a zero divisor; \<open>math.log\<close> raises outside its domain.\<close>

definition py_div :: "real \<Rightarrow> real \<Rightarrow> py_error + real" where
  "py_div a b = (if b = 0 then Inl ZeroDivisionError else Inr (a / b))"

definition py_log :: "real \<Rightarrow> py_error + real" where
  "py_log x = (if x \<le> 0 then Inl ValueError else Inr (ln x))"

text \<open>\<open>round(x, n)\<close>: the nearest multiple of \<open>10^-n\<close>, a tie going to the even one.\<close>

definition round_half_even :: "real \<Rightarrow> int" where
  "round_half_even x =
     (let f = \<lfloor>x\<rfloor>; d = x - of_int f
      in if d < 1 / 2 then f
         else if 1 / 2 < d then f + 1
         else if even f then f else f + 1)"

definition py_round :: "real \<Rightarrow> nat \<Rightarrow> real" where
  "py_round x n = of_int (round_half_even (x * 10 ^ n)) / 10 ^ n"

section \<open>Level 2: technical answers\<close>

text \<open>
  The loop of \<open>level2_technical\<close> over \<open>answers.values()\<close>, carrying the two counters
  \<open>(total, correct)\<close>, written \<open>(tot, cor)\<close> here. Both start at zero and only grow, so they are naturals.
\<close>

fun grade_loop :: "pyval list \<Rightarrow> nat \<times> nat \<Rightarrow> nat \<times> nat" where
  "grade_loop [] (tot, cor) = (tot, cor)"
| "grade_loop (v # vs) (tot, cor) =
     (case v of
        PDict e \<Rightarrow>
          (case map_of e ''correct'' of
             Some c \<Rightarrow> grade_loop vs (tot + 1, if truthy c then cor + 1 else cor)
           | None \<Rightarrow> grade_loop vs (tot, cor))
      | _ \<Rightarrow> grade_loop vs (tot, cor))"

definition level2_result :: "bool \<Rightarrow> real \<Rightarrow> string \<Rightarrow> pydict" where
  "level2_result p prob r =
     [(''pass'', PBool p), (''prob_pass'', PFloat prob), (''reason'', PStr r)]"

definition level2_technical :: "pyval \<Rightarrow> py_error + pydict" where
  "level2_technical answers =
     (case answers of
        PDict d \<Rightarrow>
          if d = [] then Inr (level2_result False 0 ''No answers'')
          else
            (case grade_loop (map snd d) (0, 0) of
               (tot, cor) \<Rightarrow>
                 if tot = 0 then Inr (level2_result False 0 ''Malformed input'')
                 else
                   (case py_div (real cor) (real tot) of
                      Inl e \<Rightarrow> Inl e
                    | Inr prob \<Rightarrow>
                        Inr (level2_result (1 / 2 \<le> prob) (py_round prob 3)
                               (if 1 / 2 \<le> prob then ''OK''
                                else ''Weak technical fundamentals''))))
      | _ \<Rightarrow> Inr (level2_result False 0 ''No answers''))"

text \<open>
  The words of the specification: an entry is gradable when its value is a mapping with a
  \<open>correct\<close> key, and it is correct when that field is true.
\<close>

fun gradable :: "pyval \<Rightarrow> bool" where
  "gradable (PDict e) = (''correct'' \<in> fst ` set e)"
| "gradable _ = False"

fun answered_correctly :: "pyval \<Rightarrow> bool" where
  "answered_correctly (PDict e) = (case map_of e ''correct'' of Some c \<Rightarrow> truthy c | None \<Rightarrow> False)"
| "answered_correctly _ = False"

definition gradable_total_count :: "pydict \<Rightarrow> nat" where
  "gradable_total_count d = length (filter gradable (map snd d))"

definition gradable_correct_count :: "pydict \<Rightarrow> nat" where
  "gradable_correct_count d = length (filter answered_correctly (map snd d))"

section \<open>Text primitives\<close>

text \<open>
  A Python \<open>str\<close> is a \<open>string\<close> whose characters are the code points 0 to 255. The
  tables below are those of \<open>str.lower\<close>, of the regular expression class \<open>\w\<close> and of
  \<open>str.strip\<close> on that range.
\<close>

definition lower_char :: "char \<Rightarrow> char" where
  "lower_char c =
     (let n = of_char c :: nat
      in if (65 \<le> n \<and> n \<le> 90) \<or> (192 \<le> n \<and> n \<le> 222 \<and> n \<noteq> 215)
         then char_of (n + 32) else c)"

definition lower :: "string \<Rightarrow> string" where
  "lower s = map lower_char s"

definition is_word_char :: "char \<Rightarrow> bool" where
  "is_word_char c =
     (let n = of_char c :: nat
      in (48 \<le> n \<and> n \<le> 57) \<or> (65 \<le> n \<and> n \<le> 90) \<or> n = 95 \<or> (97 \<le> n \<and> n \<le> 122)
         \<or> n = 170 \<or> n = 178 \<or> n = 179 \<or> n = 181 \<or> n = 185 \<or> n = 186
         \<or> (188 \<le> n \<and> n \<le> 190) \<or> (192 \<le> n \<and> n \<noteq> 215 \<and> n \<noteq> 247))"

definition is_space_char :: "char \<Rightarrow> bool" where
  "is_space_char c =
     (let n = of_char c :: nat
      in (9 \<le> n \<and> n \<le> 13) \<or> (28 \<le> n \<and> n \<le> 32) \<or> n = 133 \<or> n = 160)"

text \<open>
  \<open>re.findall(r"\w+", s)\<close>: the maximal runs of word characters, left to right; \<open>cur\<close>
  is the run being read.
\<close>

fun findall_words :: "string \<Rightarrow> string \<Rightarrow> string list" where
  "findall_words [] cur = (if cur = [] then [] else [cur])"
| "findall_words (c # cs) cur =
     (if is_word_char c then findall_words cs (cur @ [c])
      else (if cur = [] then [] else [cur]) @ findall_words cs [])"

text \<open>
  \<open>re.split(r"[.\n]+", s)\<close>: the pieces between maximal runs of \<open>.\<close> and newline, the
  empty pieces at both ends included; \<open>in_sep\<close> tells that the last character read was a
  separator.
\<close>

definition is_step_sep :: "char \<Rightarrow> bool" where
  "is_step_sep c = (c = CHR ''.'' \<or> c = CHR 0x0A)"

fun split_steps :: "string \<Rightarrow> string \<Rightarrow> bool \<Rightarrow> string list" where
  "split_steps [] cur in_sep = [cur]"
| "split_steps (c # cs) cur in_sep =
     (if is_step_sep c then
        (if in_sep then split_steps cs cur True else cur # split_steps cs [] True)
      else split_steps cs (cur @ [c]) False)"

definition strip :: "string \<Rightarrow> string" where
  "strip s = rev (dropWhile is_space_char (rev (dropWhile is_space_char s)))"

text \<open>\<open>k in step\<close> on strings: \<open>k\<close> occurs in \<open>step\<close> as a contiguous substring.\<close>

fun contains :: "string \<Rightarrow> string \<Rightarrow> bool" where
  "contains [] k = (k = [])"
| "contains (c # cs) k = (take (length k) (c # cs) = k \<or> contains cs k)"

text \<open>
  \<open>Counter(xs)\<close>: the number of occurrences of each element, keyed in the order of first
  occurrence.
\<close>

fun counter_add :: "('a \<times> nat) list \<Rightarrow> 'a \<Rightarrow> ('a \<times> nat) list" where
  "counter_add [] x = [(x, 1)]"
| "counter_add ((k, c) # m) x = (if k = x then (k, c + 1) # m else (k, c) # counter_add m x)"

definition Counter :: "'a list \<Rightarrow> ('a \<times> nat) list" where
  "Counter xs = foldl counter_add [] xs"

text \<open>\<open>sum(f(c) for c in cs)\<close> where \<open>f\<close> may raise: the first error ends the sum.\<close>

fun sum_gen :: "('a \<Rightarrow> py_error + real) \<Rightarrow> 'a list \<Rightarrow> real \<Rightarrow> py_error + real" where
  "sum_gen f [] acc = Inr acc"
| "sum_gen f (c # cs) acc =
     (case f c of Inl e \<Rightarrow> Inl e | Inr t \<Rightarrow> sum_gen f cs (acc + t))"

text \<open>\<open>max(xs)\<close> raises on an empty sequence.\<close>

definition py_max :: "nat list \<Rightarrow> py_error + nat" where
  "py_max xs = (case xs of [] \<Rightarrow> Inl ValueError | x # ys \<Rightarrow> Inr (foldl max x ys))"

section \<open>Level 1: resume screening\<close>

definition level_result :: "bool \<Rightarrow> real \<Rightarrow> string \<Rightarrow> pydict" where
  "level_result p sc r =
     [(''pass'', PBool p), (''score'', PFloat sc), (''reason'', PStr r)]"

text \<open>One summand \<open>(c / total) * math.log(c / total)\<close> of the entropy.\<close>

definition entropy_term :: "nat \<Rightarrow> nat \<Rightarrow> py_error + real" where
  "entropy_term tot c =
     (case py_div (real c) (real tot) of
        Inl e \<Rightarrow> Inl e
      | Inr p \<Rightarrow> (case py_log p of Inl e \<Rightarrow> Inl e | Inr l \<Rightarrow> Inr (p * l)))"

definition level1_score :: "string list \<Rightarrow> py_error + real" where
  "level1_score tokens =
     (let counts = Counter tokens;
          tot = sum_list (map snd counts)
      in case sum_gen (entropy_term tot) (map snd counts) 0 of
           Inl e \<Rightarrow> Inl e
         | Inr s \<Rightarrow>
             (case py_log (real tot) of
                Inl e \<Rightarrow> Inl e
              | Inr lt \<Rightarrow>
                  (case py_div (- s) lt of
                     Inl e \<Rightarrow> Inl e
                   | Inr entropy_norm \<Rightarrow>
                       (case py_div (real (length (remdups tokens))) (real tot) of
                          Inl e \<Rightarrow> Inl e
                        | Inr redundancy \<Rightarrow>
                            Inr (100 * (55 / 100 * min entropy_norm 1
                                        + 45 / 100 * redundancy))))))"

definition level1_screen :: "pyval \<Rightarrow> py_error + pydict" where
  "level1_screen text =
     (case text of
        PStr s \<Rightarrow>
          (let tokens = findall_words (lower s) []
           in if length tokens < 30 then Inr (level_result False 0 ''Too short'')
              else
                (case level1_score tokens of
                   Inl e \<Rightarrow> Inl e
                 | Inr score \<Rightarrow>
                     Inr (level_result (60 \<le> score) (py_round score 2)
                            (if 60 \<le> score then ''OK'' else ''Low signal''))))
      | _ \<Rightarrow> Inr (level_result False 0 ''Invalid input''))"

section \<open>Level 3: scenario reasoning\<close>

definition PHASES :: "(string \<times> string list) list" where
  "PHASES =
     [(''diagnose'', [''investigate'', ''analyze'', ''identify'']),
      (''contain'', [''rollback'', ''mitigate'', ''reduce'']),
      (''fix'', [''fix'', ''resolve'', ''repair'']),
      (''prevent'', [''monitor'', ''prevent'', ''automate''])]"

definition DIMENSIONS :: "(string \<times> string list) list" where
  "DIMENSIONS =
     [(''risk'', [''risk'', ''impact'']),
      (''cost'', [''cost'', ''budget'']),
      (''time'', [''downtime'', ''delay'']),
      (''reliability'', [''uptime'', ''stability''])]"

text \<open>
  The names of a keyword table that a step hits: for the phases this is what one round
  of the inner loop appends, for the dimensions it is the set \<open>dims\<close> (a list without
  repetition, since the keys of the table are distinct).
\<close>

definition hits :: "(string \<times> string list) list \<Rightarrow> string \<Rightarrow> string list" where
  "hits table step = map fst (filter (\<lambda>(name, keys). list_ex (contains step) keys) table)"

definition scenario_steps :: "string \<Rightarrow> string list" where
  "scenario_steps answer =
     map (\<lambda>s. lower (strip s)) (filter (\<lambda>s. strip s \<noteq> []) (split_steps answer [] False))"

definition phase_hits :: "string list \<Rightarrow> string list" where
  "phase_hits steps = concat (map (hits PHASES) steps)"

definition dim_hits :: "string list \<Rightarrow> string list list" where
  "dim_hits steps = filter (\<lambda>dims. dims \<noteq> []) (map (hits DIMENSIONS) steps)"

definition flow :: "string list \<Rightarrow> py_error + real" where
  "flow ph = py_div (real (length (remdups ph))) (real (length PHASES))"

definition tradeoff :: "string list list \<Rightarrow> py_error + real" where
  "tradeoff dh =
     (if dh \<noteq> [] then
        py_div (real (sum_list (map length dh))) (real (length dh * length DIMENSIONS))
      else Inr 0)"

definition dominance :: "string list \<Rightarrow> py_error + real" where
  "dominance flat_dims =
     (if flat_dims \<noteq> [] then
        (case py_max (map snd (Counter flat_dims)) of
           Inl e \<Rightarrow> Inl e
         | Inr m \<Rightarrow> py_div (real m) (real (length flat_dims)))
      else Inr 1)"

definition level3_score :: "string list \<Rightarrow> py_error + real" where
  "level3_score steps =
     (let ph = phase_hits steps; dh = dim_hits steps
      in case flow ph of
           Inl e \<Rightarrow> Inl e
         | Inr fl \<Rightarrow>
             (case tradeoff dh of
                Inl e \<Rightarrow> Inl e
              | Inr tr \<Rightarrow>
                  (case dominance (concat dh) of
                     Inl e \<Rightarrow> Inl e
                   | Inr dmn \<Rightarrow>
                       Inr (100 * (45 / 100 * fl + 35 / 100 * tr + 20 / 100 * (1 - dmn))))))"

definition level3_scenario :: "pyval \<Rightarrow> py_error + pydict" where
  "level3_scenario answer =
     (case answer of
        PStr s \<Rightarrow>
          (let steps = scenario_steps s
           in if length steps < 2 then Inr (level_result False 0 ''Too shallow'')
              else
                (case level3_score steps of
                   Inl e \<Rightarrow> Inl e
                 | Inr score \<Rightarrow>
                     Inr (level_result (75 \<le> score) (py_round score 2)
                            (if 75 \<le> score then ''OK'' else ''Weak scenario reasoning''))))
      | _ \<Rightarrow> Inr (level_result False 0 ''Invalid input''))"

section \<open>Persistence\<close>

text \<open>
  The three tables of \<open>db.py\<close>, each a list of rows in insertion order. A column that
  receives a caller's value unchanged (\<open>full_name\<close>, \<open>answer\<close>, ...) holds that value; a
  JSON column holds the value that \<open>json.dumps\<close> serialises. \<open>init_db\<close> creates the tables
  when they are missing and changes no row, so it does not appear.
\<close>

record candidate =
  candidate_id :: string
  full_name :: pyval
  email :: pyval
  phone :: pyval
  role :: pyval
  created_at :: string

record session =
  session_id :: string
  candidate_id :: string
  status :: string
  final_score :: "real option"
  final_decision :: "string option"
  created_at :: string
  completed_at :: "string option"

record round_result =
  result_id :: string
  session_id :: string
  round_no :: int
  owner :: string
  question_id :: "string option"
  question :: string
  answer :: pyval
  raw_score :: real
  score :: real
  passed :: int
  threshold :: real
  violations_json :: pyval
  metrics_json :: pyval
  features_json :: pyval
  entropy_value :: "real option"
  created_at :: string

text \<open>
  The state a call runs in: the tables, and how many values have been drawn so far from
  \<open>uuid.uuid4()\<close> and read from the clock. What those draws and readings return, and what
  \<open>str(v)\<close> prints, is given from outside.
\<close>

record world =
  candidates :: "candidate list"
  sessions :: "session list"
  round_results :: "round_result list"
  uuid_calls :: nat
  clock_calls :: nat

record environ =
  uuid4_hex12 :: "nat \<Rightarrow> string"
  utcnow_iso :: "nat \<Rightarrow> string"
  py_str :: "pyval \<Rightarrow> string"

definition utc_now :: "environ \<Rightarrow> world \<Rightarrow> string \<times> world" where
  "utc_now env w =
     (utcnow_iso env (clock_calls w) @ ''Z'', w\<lparr>clock_calls := Suc (clock_calls w)\<rparr>)"

definition new_id :: "environ \<Rightarrow> string \<Rightarrow> world \<Rightarrow> string \<times> world" where
  "new_id env prefix w =
     (prefix @ ''_'' @ uuid4_hex12 env (uuid_calls w), w\<lparr>uuid_calls := Suc (uuid_calls w)\<rparr>)"

text \<open>
  Binding a statement's parameters: \<open>None\<close>, numbers and strings are accepted, an integer
  only within 64 bits, and nothing else. The first parameter refused decides the error.
\<close>

fun sql_bind :: "pyval \<Rightarrow> py_error option" where
  "sql_bind (PInt i) = (if - (2 ^ 63) \<le> i \<and> i < 2 ^ 63 then None else Some OverflowError)"
| "sql_bind (PList xs) = Some BindingError"
| "sql_bind (PDict d) = Some BindingError"
| "sql_bind _ = None"

fun sql_bind_all :: "pyval list \<Rightarrow> py_error option" where
  "sql_bind_all [] = None"
| "sql_bind_all (v # vs) = (case sql_bind v of Some e \<Rightarrow> Some e | None \<Rightarrow> sql_bind_all vs)"

text \<open>\<open>float(v)\<close>.\<close>

fun py_float :: "pyval \<Rightarrow> py_error + real" where
  "py_float (PFloat r) = Inr r"
| "py_float (PInt i) = Inr (of_int i)"
| "py_float (PBool b) = Inr (if b then 1 else 0)"
| "py_float (PStr s) = Inl NotModelled"
| "py_float _ = Inl TypeError"

text \<open>\<open>v * x\<close> for a float \<open>x\<close>.\<close>

fun py_mul_float :: "pyval \<Rightarrow> real \<Rightarrow> py_error + real" where
  "py_mul_float (PFloat r) x = Inr (r * x)"
| "py_mul_float (PInt i) x = Inr (of_int i * x)"
| "py_mul_float (PBool b) x = Inr ((if b then 1 else 0) * x)"
| "py_mul_float _ x = Inl TypeError"

text \<open>
  Every operation is one statement in its own transaction: when it raises, the tables are
  as before. The operations return the raised error or their result, and the new state.
\<close>

definition upsert_candidate ::
  "environ \<Rightarrow> world \<Rightarrow> pyval \<Rightarrow> pyval \<Rightarrow> pyval \<Rightarrow> pyval \<Rightarrow> string option
     \<Rightarrow> (py_error + string) \<times> world" where
  "upsert_candidate env w full_name' email' phone' role' candidate_id' =
     (case (case candidate_id' of
              Some c \<Rightarrow> if c \<noteq> [] then (c, w) else new_id env ''cand'' w
            | None \<Rightarrow> new_id env ''cand'' w) of
        (cid, w1) \<Rightarrow>
          if list_ex (\<lambda>c. candidate.candidate_id c = cid) (candidates w1) then
            (case sql_bind_all [full_name', email', phone', role'] of
               Some e \<Rightarrow> (Inl e, w1)
             | None \<Rightarrow>
                 (Inr cid,
                  w1\<lparr>candidates :=
                       map (\<lambda>c. if candidate.candidate_id c = cid
                                then c\<lparr>full_name := full_name', email := email',
                                       phone := phone', role := role'\<rparr>
                                else c) (candidates w1)\<rparr>))
          else
            (case utc_now env w1 of
               (now, w2) \<Rightarrow>
                 (case sql_bind_all [full_name', email', phone', role'] of
                    Some e \<Rightarrow> (Inl e, w2)
                  | None \<Rightarrow>
                      (Inr cid,
                       w2\<lparr>candidates :=
                            candidates w2 @
                            [\<lparr>candidate.candidate_id = cid, full_name = full_name',
                              email = email', phone = phone', role = role',
                              candidate.created_at = now\<rparr>]\<rparr>))))"

definition create_session :: "environ \<Rightarrow> world \<Rightarrow> string \<Rightarrow> (py_error + string) \<times> world" where
  "create_session env w candidate_id' =
     (case new_id env ''sess'' w of
        (sid, w1) \<Rightarrow>
          (case utc_now env w1 of
             (now, w2) \<Rightarrow>
               if list_ex (\<lambda>s. session.session_id s = sid) (sessions w2)
                  \<or> \<not> list_ex (\<lambda>c. candidate.candidate_id c = candidate_id') (candidates w2)
               then (Inl IntegrityError, w2)
               else
                 (Inr sid,
                  w2\<lparr>sessions :=
                       sessions w2 @
                       [\<lparr>session.session_id = sid, session.candidate_id = candidate_id',
                         status = ''IN_PROGRESS'', final_score = None, final_decision = None,
                         session.created_at = now, completed_at = None\<rparr>]\<rparr>)))"

definition save_round_result ::
  "environ \<Rightarrow> world \<Rightarrow> string \<Rightarrow> int \<Rightarrow> string \<Rightarrow> string \<Rightarrow> pyval \<Rightarrow> pyval \<Rightarrow> pyval \<Rightarrow> pyval
     \<Rightarrow> real \<Rightarrow> string option \<Rightarrow> pyval option \<Rightarrow> pyval option \<Rightarrow> pyval option \<Rightarrow> real option
     \<Rightarrow> (py_error + string) \<times> world" where
  "save_round_result env w session_id' round_no' owner' question' answer' raw_score' score'
       passed' threshold' question_id' violations metrics features entropy_value' =
     (case new_id env ''res'' w of
        (rid, w1) \<Rightarrow>
          (case py_float raw_score' of
             Inl e \<Rightarrow> (Inl e, w1)
           | Inr raw \<Rightarrow>
               (case py_float score' of
                  Inl e \<Rightarrow> (Inl e, w1)
                | Inr sc \<Rightarrow>
                    (case utc_now env w1 of
                       (now, w2) \<Rightarrow>
                         (case sql_bind answer' of
                            Some e \<Rightarrow> (Inl e, w2)
                          | None \<Rightarrow>
                              if list_ex (\<lambda>r. result_id r = rid) (round_results w2)
                                 \<or> \<not> list_ex (\<lambda>s. session.session_id s = session_id')
                                        (sessions w2)
                              then (Inl IntegrityError, w2)
                              else
                                (Inr rid,
                                 w2\<lparr>round_results :=
                                      round_results w2 @
                                      [\<lparr>result_id = rid,
                                        round_result.session_id = session_id',
                                        round_no = round_no', owner = owner',
                                        question_id = question_id', question = question',
                                        answer = answer', raw_score = raw, score = sc,
                                        passed = (if truthy passed' then 1 else 0),
                                        threshold = threshold',
                                        violations_json =
                                          (case violations of
                                             Some v \<Rightarrow> if truthy v then v else PList []
                                           | None \<Rightarrow> PList []),
                                        metrics_json =
                                          (case metrics of
                                             Some m \<Rightarrow> if truthy m then m else PDict []
                                           | None \<Rightarrow> PDict []),
                                        features_json =
                                          (case features of
                                             Some f \<Rightarrow> if truthy f then f else PDict []
                                           | None \<Rightarrow> PDict []),
                                        entropy_value = entropy_value',
                                        round_result.created_at = now\<rparr>]\<rparr>))))))"

definition complete_session ::
  "environ \<Rightarrow> world \<Rightarrow> string \<Rightarrow> pyval \<Rightarrow> string \<Rightarrow> py_error option \<times> world" where
  "complete_session env w session_id' final_score' final_decision' =
     (case py_float final_score' of
        Inl e \<Rightarrow> (Some e, w)
      | Inr fs \<Rightarrow>
          (case utc_now env w of
             (now, w1) \<Rightarrow>
               (None,
                w1\<lparr>sessions :=
                     map (\<lambda>s. if session.session_id s = session_id'
                              then s\<lparr>status := ''COMPLETED'', final_score := Some fs,
                                     final_decision := Some final_decision',
                                     completed_at := Some now\<rparr>
                              else s) (sessions w1)\<rparr>)))"

definition get_session :: "world \<Rightarrow> string \<Rightarrow> session option" where
  "get_session w session_id' = find (\<lambda>s. session.session_id s = session_id') (sessions w)"

text \<open>The rows that \<open>get_round_results\<close> selects for a session, in insertion order.\<close>

definition session_round_results :: "world \<Rightarrow> string \<Rightarrow> round_result list" where
  "session_round_results w session_id' =
     filter (\<lambda>r. round_result.session_id r = session_id') (round_results w)"

section \<open>The orchestrator\<close>

text \<open>
  \<open>evaluate_candidate\<close>, cut at its two early returns: the code from the Level 3 stage on,
  the code from the Level 2 stage on, and the whole function. An exception of a scorer or
  of the store ends the call with the state reached so far.
\<close>

definition evaluate_level3 ::
  "environ \<Rightarrow> world \<Rightarrow> pydict \<Rightarrow> string \<Rightarrow> pydict \<Rightarrow> pydict \<Rightarrow> (py_error + pydict) \<times> world" where
  "evaluate_level3 env w payload session_id' l1 l2 =
     (let scenario_answer = dict_get payload ''scenario_answer'' (PStr '''')
      in case level3_scenario scenario_answer of
           Inl e \<Rightarrow> (Inl e, w)
         | Inr l3 \<Rightarrow>
             (case save_round_result env w session_id' 3 ''Interviewer L3''
                     ''Scenario-Based Reasoning'' scenario_answer
                     (dict_get l3 ''score'' (PFloat 0)) (dict_get l3 ''score'' (PFloat 0))
                     (dict_get l3 ''pass'' (PBool False)) 75 None None (Some (PDict l3)) None None of
                (Inl e, w1) \<Rightarrow> (Inl e, w1)
              | (Inr rid, w1) \<Rightarrow>
                  (let final_decision' =
                         (if truthy (dict_get l3 ''pass'' (PBool False)) then ''HIRE''
                          else ''HOLD'')
                   in case complete_session env w1 session_id'
                             (dict_get l3 ''score'' (PFloat 0)) final_decision' of
                        (Some e, w2) \<Rightarrow> (Inl e, w2)
                      | (None, w2) \<Rightarrow>
                          (Inr [(''final_pass'', dict_get l3 ''pass'' (PBool False)),
                                (''decision'', PStr final_decision'),
                                (''session_id'', PStr session_id'),
                                (''level1'', PDict l1),
                                (''level2'', PDict l2),
                                (''level3'', PDict l3)],
                           w2))))"

definition evaluate_level2 ::
  "environ \<Rightarrow> world \<Rightarrow> pydict \<Rightarrow> string \<Rightarrow> pydict \<Rightarrow> (py_error + pydict) \<times> world" where
  "evaluate_level2 env w payload session_id' l1 =
     (let technical_answers = dict_get payload ''technical_answers'' (PDict [])
      in case level2_technical technical_answers of
           Inl e \<Rightarrow> (Inl e, w)
         | Inr l2 \<Rightarrow>
             (case py_mul_float (dict_get l2 ''prob_pass'' (PFloat 0)) 100 of
                Inl e \<Rightarrow> (Inl e, w)
              | Inr pct \<Rightarrow>
                  (case save_round_result env w session_id' 2 ''Interviewer L2''
                          ''Technical Evaluation'' (PStr (py_str env technical_answers))
                          (PFloat pct) (PFloat pct)
                          (dict_get l2 ''pass'' (PBool False)) 50 None None (Some (PDict l2))
                          None None of
                     (Inl e, w1) \<Rightarrow> (Inl e, w1)
                   | (Inr rid, w1) \<Rightarrow>
                       if \<not> truthy (dict_get l2 ''pass'' (PBool False)) then
                         (case complete_session env w1 session_id' (PFloat pct) ''REJECT'' of
                            (Some e, w2) \<Rightarrow> (Inl e, w2)
                          | (None, w2) \<Rightarrow>
                              (Inr [(''final_pass'', PBool False),
                                    (''failed_at'', PStr ''level2''),
                                    (''session_id'', PStr session_id'),
                                    (''level1'', PDict l1),
                                    (''level2'', PDict l2)],
                               w2))
                       else evaluate_level3 env w1 payload session_id' l1 l2)))"

definition evaluate_candidate ::
  "environ \<Rightarrow> world \<Rightarrow> pydict \<Rightarrow> (py_error + pydict) \<times> world" where
  "evaluate_candidate env w payload =
     (case upsert_candidate env w
             (dict_get payload ''full_name'' (PStr ''Unknown''))
             (dict_get payload ''email'' (PStr ''''))
             (dict_get payload ''phone'' (PStr ''''))
             (dict_get payload ''role'' (PStr ''Backend Engineer'')) None of
        (Inl e, w1) \<Rightarrow> (Inl e, w1)
      | (Inr candidate_id', w1) \<Rightarrow>
          (case create_session env w1 candidate_id' of
             (Inl e, w2) \<Rightarrow> (Inl e, w2)
           | (Inr session_id', w2) \<Rightarrow>
               (let resume_text = dict_get payload ''resume_text'' (PStr '''')
                in case level1_screen resume_text of
                     Inl e \<Rightarrow> (Inl e, w2)
                   | Inr l1 \<Rightarrow>
                       (case save_round_result env w2 session_id' 1 ''Interviewer L1''
                               ''Resume Screening'' resume_text
                               (dict_get l1 ''score'' (PFloat 0))
                               (dict_get l1 ''score'' (PFloat 0))
                               (dict_get l1 ''pass'' (PBool False)) 60 None None None
                               (Some (PDict l1)) None of
                          (Inl e, w3) \<Rightarrow> (Inl e, w3)
                        | (Inr rid, w3) \<Rightarrow>
                            if \<not> truthy (dict_get l1 ''pass'' (PBool False)) then
                              (case complete_session env w3 session_id'
                                      (dict_get l1 ''score'' (PFloat 0)) ''REJECT'' of
                                 (Some e, w4) \<Rightarrow> (Inl e, w4)
                               | (None, w4) \<Rightarrow>
                                   (Inr [(''final_pass'', PBool False),
                                         (''failed_at'', PStr ''level1''),
                                         (''session_id'', PStr session_id'),
                                         (''level1'', PDict l1)],
                                    w4))
                            else evaluate_level2 env w3 payload session_id' l1))))"

section \<open>The specification's quantities\<close>

text \<open>
  The words of the specification for Level 1: the lower-cased word tokens of a text, the
  Shannon entropy of their frequency distribution, and the score built from the entropy
  normalised by the logarithm of the token count and from the share of distinct tokens.
\<close>

definition word_tokens :: "string \<Rightarrow> string list" where
  "word_tokens s = findall_words (lower s) []"

definition shannon_entropy :: "string list \<Rightarrow> real" where
  "shannon_entropy tokens =
     - (\<Sum>t\<in>set tokens. real (count_list tokens t) / real (length tokens)
                          * ln (real (count_list tokens t) / real (length tokens)))"

definition spec_level1_score :: "string list \<Rightarrow> real" where
  "spec_level1_score tokens =
     100 * (55 / 100 * min (shannon_entropy tokens / ln (real (length tokens))) 1
            + 45 / 100 * (real (card (set tokens)) / real (length tokens)))"

text \<open>The invariant of the counting loop: \<open>m\<close> holds the counts of the elements of \<open>xs\<close>.\<close>

definition counts_ok :: "('a \<times> nat) list \<Rightarrow> 'a list \<Rightarrow> bool" where
  "counts_ok m xs \<longleftrightarrow>
     distinct (map fst m) \<and> fst ` set m = set xs
     \<and> (\<forall>k \<in> set xs. map_of m k = Some (count_list xs k))"

section \<open>Concrete inputs\<close>

text \<open>Decimal digits of a number, for the keys \<open>q1\<close>, \<open>q2\<close>, ... of an answer sheet.\<close>

fun show_nat :: "nat \<Rightarrow> string" where
  "show_nat n =
     (if n < 10 then [char_of (48 + n)]
      else show_nat (n div 10) @ [char_of (48 + n mod 10)])"

text \<open>
  \<open>graded i n b\<close> is the answer sheet \<open>{"q<i>": {"correct": b}, ...}\<close> of the \<open>n\<close>
  questions numbered from \<open>i\<close>.
\<close>

definition graded :: "nat \<Rightarrow> nat \<Rightarrow> bool \<Rightarrow> pydict" where
  "graded i n b = map (\<lambda>j. (''q'' @ show_nat j, PDict [(''correct'', PBool b)])) [i..<i + n]"

text \<open>A text of 30 different words.\<close>

definition thirty_distinct_words :: string where
  "thirty_distinct_words =
     ''python java kotlin docker linux design testing cloud '' @
     ''network storage backend frontend database security agile scrum '' @
     ''leader mentor budget roadmap metrics latency caching queue '' @
     ''stream batch deploy monitor review release''"

text \<open>
  A text of 256 words, 99 of them different: 9 words occur 8 times, 29 occur 4 times,
  7 occur twice and 54 once.
\<close>

definition level1_boundary_text :: string where
  "level1_boundary_text =
     ''br cj cl be be ba ft cd bt fi bl bd fn bd dj bv '' @
     ''bn dh bv br cl ci bi cs fu bi bd dk bf bh bg fm '' @
     ''bp ff bm bp ds bf bo fq cn bh bq bl bl bt bi ch '' @
     ''cm ba cr be ck bk df fe dw cd bp ba dq bv bm cj '' @
     ''di cu bb cq ba fg dz bb de cl fk dp bi bh ba ce '' @
     ''bi co bf cq cy bf bi ce cg ba du bx ci bj cj ba '' @
     ''bz bm bq bq fd cb ce by cr cd bf bg by ck bw bs '' @
     ''bx br cc bt be bi bg dr bc cn cc fc bu by bg cj '' @
     ''be ch bg cx ci bd bf bn bu ba bn bp bj ch bk co '' @
     ''cp bv bi dy fa cp ct cm bn cf cl cs dg bc bb cg '' @
     ''bw fs ch bf dd bx da fo cd bj bt bm bw by ck dm '' @
     ''bc bh cv bh bk bo bu dl bu bl bs bz cw bw bg ce '' @
     ''dn dt bc ck ca fl bo bg cf cz cc bd bf ci ca bk '' @
     ''cb bd bz be fb bj be ca bb bh fp fr do cb dv fj '' @
     ''cf cf bh bd cb dc bb bs ca bc bh bc br bs bc bb '' @
     ''bg bx dx bb cc bo bd bz db bc bb cg bq be fh cg''"

text \<open>The scenario answer of the specification's third example.\<close>

definition scenario_example :: string where
  "scenario_example = ''We investigate the issue. We rollback the change. We monitor after.''"

section \<open>Properties of Level 2\<close>

lemma gradable_map_of: "gradable (PDict e) \<longleftrightarrow> map_of e ''correct'' \<noteq> None"
  by (simp add: map_of_eq_None_iff)

lemma grade_loop_counts:
  "grade_loop vs (tot, cor) =
     (tot + length (filter gradable vs), cor + length (filter answered_correctly vs))"
proof (induction vs arbitrary: tot cor)
  case Nil
  then show ?case by simp
next
  case (Cons v vs)
  show ?case
  proof (cases v)
    case (PDict e)
    then show ?thesis
      using Cons.IH
      by (cases "map_of e ''correct''") (simp_all add: gradable_map_of del: gradable.simps(1))
  qed (simp_all add: Cons.IH)
qed

lemma grade_loop_start:
  "grade_loop (map snd d) (0, 0) = (gradable_total_count d, gradable_correct_count d)"
  by (simp add: grade_loop_counts gradable_total_count_def gradable_correct_count_def)

text \<open>
  Claim C7. An input that is not a non-empty mapping with at least one gradable value
  (not a mapping at all, an empty mapping, or a mapping none of whose values is a mapping
  with a \<open>correct\<close> key) is answered without an exception, with \<open>pass = False\<close> and
  \<open>prob_pass = 0.0\<close>.
\<close>

theorem level2_soft_failure:
  assumes "\<not> (\<exists>d. answers = PDict d \<and> d \<noteq> [] \<and> list_ex gradable (map snd d))"
  shows "\<exists>r. level2_technical answers = Inr (level2_result False 0 r)"
proof (cases answers)
  case (PDict d)
  show ?thesis
  proof (cases "d = []")
    case True
    then show ?thesis by (auto simp: level2_technical_def PDict)
  next
    case False
    with assms PDict have "\<not> list_ex gradable (map snd d)" by simp
    then have "filter gradable (map snd d) = []"
      by (simp add: list_ex_iff filter_empty_conv)
    then have "gradable_total_count d = 0" by (simp add: gradable_total_count_def)
    then show ?thesis
      by (auto simp: level2_technical_def PDict False grade_loop_start)
  qed
qed (auto simp: level2_technical_def)

theorem level2_soft_failure_witness:
  "level2_technical (PDict [(''q1'', PStr ''yes''), (''q2'', PDict [(''answer'', PBool True)])])
     = Inr (level2_result False 0 ''Malformed input'')
   \<and> (\<exists>r. level2_technical (PList [PBool True]) = Inr (level2_result False 0 r))"
proof -
  have a: "\<not> (\<exists>d. PList [PBool True] = PDict d \<and> d \<noteq> [] \<and> list_ex gradable (map snd d))"
    by simp
  have "level2_technical (PDict [(''q1'', PStr ''yes''), (''q2'', PDict [(''answer'', PBool True)])])
     = Inr (level2_result False 0 ''Malformed input'')"
    by (simp add: level2_technical_def)
  with level2_soft_failure [OF a] show ?thesis by simp
qed

subsection \<open>Decimal rounding\<close>

lemma round_half_even_mono: "x \<le> y \<Longrightarrow> round_half_even x \<le> round_half_even y"
  unfolding round_half_even_def Let_def
  using floor_mono [of x y]
  by (cases "\<lfloor>x\<rfloor> = \<lfloor>y\<rfloor>") auto

lemma py_round_mono: "x \<le> y \<Longrightarrow> py_round x n \<le> py_round y n"
  by (simp add: py_round_def round_half_even_mono divide_right_mono)

subsection \<open>Graded answer sheets\<close>

lemma level2_value:
  assumes "0 < gradable_total_count d"
  shows "level2_technical (PDict d) =
           Inr (level2_result
                  (1 / 2 \<le> real (gradable_correct_count d) / real (gradable_total_count d))
                  (py_round (real (gradable_correct_count d) / real (gradable_total_count d)) 3)
                  (if 1 / 2 \<le> real (gradable_correct_count d) / real (gradable_total_count d)
                   then ''OK'' else ''Weak technical fundamentals''))"
proof -
  from assms have "d \<noteq> []" by (auto simp: gradable_total_count_def)
  with assms show ?thesis
    by (simp add: level2_technical_def grade_loop_start py_div_def)
qed

lemma graded_values: "map snd (graded i n b) = replicate n (PDict [(''correct'', PBool b)])"
  by (simp add: graded_def comp_def map_replicate_const)

lemma graded_total: "gradable_total_count (graded i n b @ graded j m c) = n + m"
  by (simp add: gradable_total_count_def graded_values)

lemma graded_correct:
  "gradable_correct_count (graded i n True @ graded j m False) = n"
  by (simp add: gradable_correct_count_def graded_values)

text \<open>
  Claim C2, as amended. On a mapping with at least one gradable entry, only the gradable
  entries are counted, \<open>prob_pass\<close> is the ratio of the correct ones rounded to three
  decimals, and \<open>pass\<close> tells whether the ratio itself, before rounding, is at least one
  half. The sheet \<open>{"q1": {"correct": true}, "q2": {"correct": false}}\<close> gives
  \<open>prob_pass = 0.5\<close> and \<open>pass = true\<close>.
\<close>

theorem level2_graded:
  assumes "0 < gradable_total_count d"
  shows "level2_technical (PDict d) =
           Inr (level2_result
                  (1 / 2 \<le> real (gradable_correct_count d) / real (gradable_total_count d))
                  (py_round (real (gradable_correct_count d) / real (gradable_total_count d)) 3)
                  (if 1 / 2 \<le> real (gradable_correct_count d) / real (gradable_total_count d)
                   then ''OK'' else ''Weak technical fundamentals''))
         \<and> level2_technical
             (PDict [(''q1'', PDict [(''correct'', PBool True)]),
                     (''q2'', PDict [(''correct'', PBool False)])])
           = Inr (level2_result True (1 / 2) ''OK'')"
proof
  show "level2_technical (PDict d) =
           Inr (level2_result
                  (1 / 2 \<le> real (gradable_correct_count d) / real (gradable_total_count d))
                  (py_round (real (gradable_correct_count d) / real (gradable_total_count d)) 3)
                  (if 1 / 2 \<le> real (gradable_correct_count d) / real (gradable_total_count d)
                   then ''OK'' else ''Weak technical fundamentals''))"
    by (rule level2_value [OF assms])
  show "level2_technical
             (PDict [(''q1'', PDict [(''correct'', PBool True)]),
                     (''q2'', PDict [(''correct'', PBool False)])])
           = Inr (level2_result True (1 / 2) ''OK'')"
    by (simp add: level2_technical_def py_div_def py_round_def round_half_even_def)
qed

theorem level2_graded_witness:
  "level2_technical
     (PDict [(''q1'', PDict [(''correct'', PBool True)]),
             (''q2'', PStr ''skipped''),
             (''q3'', PDict [(''correct'', PBool False), (''note'', PStr ''late'')]),
             (''q4'', PDict [(''correct'', PInt 1)])])
   = Inr (level2_result True (667 / 1000) ''OK'')"
proof -
  let ?d = "[(''q1'', PDict [(''correct'', PBool True)]),
             (''q2'', PStr ''skipped''),
             (''q3'', PDict [(''correct'', PBool False), (''note'', PStr ''late'')]),
             (''q4'', PDict [(''correct'', PInt 1)])]"
  have t: "gradable_total_count ?d = 3" and c: "gradable_correct_count ?d = 2"
    by (simp_all add: gradable_total_count_def gradable_correct_count_def)
  then have "0 < gradable_total_count ?d" by simp
  from level2_graded [OF this] show ?thesis
    unfolding t c by (simp add: py_round_def round_half_even_def)
qed

text \<open>
  The claim as stated compares the returned, rounded \<open>prob_pass\<close> with 0.5. With 1001
  gradable answers of which 500 are correct the ratio is below one half and the answer
  is \<open>pass = False\<close>, while the returned \<open>prob_pass\<close> is 0.5.
\<close>

theorem level2_pass_rounding_counterexample:
  "level2_technical (PDict (graded 1 500 True @ graded 501 501 False))
     = Inr (level2_result False (1 / 2) ''Weak technical fundamentals'')
   \<and> gradable_total_count (graded 1 500 True @ graded 501 501 False) = 1001
   \<and> gradable_correct_count (graded 1 500 True @ graded 501 501 False) = 500"
proof -
  let ?d = "graded 1 500 True @ graded 501 501 False"
  have t: "gradable_total_count ?d = 1001" and c: "gradable_correct_count ?d = 500"
    by (simp_all add: graded_total graded_correct)
  then have "0 < gradable_total_count ?d" by simp
  from level2_value [OF this] show ?thesis
    unfolding t c by (simp add: py_round_def round_half_even_def)
qed

text \<open>
  Claim C8, as amended. Between two mappings with gradable entries, a larger ratio of
  correct answers never gives a smaller \<open>prob_pass\<close>; the two values can be equal, since
  \<open>prob_pass\<close> is the ratio rounded to three decimals.
\<close>

theorem level2_prob_pass_monotone:
  assumes "0 < gradable_total_count d1" and "0 < gradable_total_count d2"
    and "real (gradable_correct_count d1) / real (gradable_total_count d1)
           < real (gradable_correct_count d2) / real (gradable_total_count d2)"
  shows "\<exists>r1 r2 p1 p2.
           level2_technical (PDict d1) = Inr r1 \<and> dict_get r1 ''prob_pass'' (PFloat 0) = PFloat p1
         \<and> level2_technical (PDict d2) = Inr r2 \<and> dict_get r2 ''prob_pass'' (PFloat 0) = PFloat p2
         \<and> p1 \<le> p2"
proof -
  let ?q1 = "real (gradable_correct_count d1) / real (gradable_total_count d1)"
  let ?q2 = "real (gradable_correct_count d2) / real (gradable_total_count d2)"
  from assms(3) have "py_round ?q1 3 \<le> py_round ?q2 3"
    by (intro py_round_mono) simp
  moreover have "dict_get (level2_result b p r) ''prob_pass'' (PFloat 0) = PFloat p" for b p r
    by (simp add: level2_result_def dict_get_def)
  ultimately show ?thesis
    using level2_value [OF assms(1)] level2_value [OF assms(2)] by blast
qed

theorem level2_prob_pass_monotone_witness:
  "\<exists>r1 r2 p1 p2.
     level2_technical (PDict (graded 1 1 True @ graded 2 2 False)) = Inr r1
   \<and> dict_get r1 ''prob_pass'' (PFloat 0) = PFloat p1
   \<and> level2_technical (PDict (graded 1 2 True @ graded 3 1 False)) = Inr r2
   \<and> dict_get r2 ''prob_pass'' (PFloat 0) = PFloat p2
   \<and> p1 \<le> p2"
proof -
  let ?d1 = "graded 1 1 True @ graded 2 2 False"
  let ?d2 = "graded 1 2 True @ graded 3 1 False"
  have "0 < gradable_total_count ?d1" and "0 < gradable_total_count ?d2"
    and "real (gradable_correct_count ?d1) / real (gradable_total_count ?d1)
           < real (gradable_correct_count ?d2) / real (gradable_total_count ?d2)"
    by (simp_all add: graded_total graded_correct)
  from level2_prob_pass_monotone [OF this] show ?thesis .
qed

text \<open>
  The claim as stated asks for a strictly larger \<open>prob_pass\<close>. Six correct answers of 31
  and seven of 36 have ratios 0.1935... and 0.1944..., and both are returned as 0.194.
\<close>

theorem level2_strict_monotone_counterexample:
  "level2_technical (PDict (graded 1 6 True @ graded 7 25 False))
     = Inr (level2_result False (194 / 1000) ''Weak technical fundamentals'')
   \<and> level2_technical (PDict (graded 1 7 True @ graded 8 29 False))
     = Inr (level2_result False (194 / 1000) ''Weak technical fundamentals'')
   \<and> real (gradable_correct_count (graded 1 6 True @ graded 7 25 False))
       / real (gradable_total_count (graded 1 6 True @ graded 7 25 False))
     < real (gradable_correct_count (graded 1 7 True @ graded 8 29 False))
       / real (gradable_total_count (graded 1 7 True @ graded 8 29 False))"
proof -
  let ?d1 = "graded 1 6 True @ graded 7 25 False"
  let ?d2 = "graded 1 7 True @ graded 8 29 False"
  have t1: "gradable_total_count ?d1 = 31" and c1: "gradable_correct_count ?d1 = 6"
    and t2: "gradable_total_count ?d2 = 36" and c2: "gradable_correct_count ?d2 = 7"
    by (simp_all add: graded_total graded_correct)
  have "0 < gradable_total_count ?d1" and "0 < gradable_total_count ?d2"
    by (simp_all add: graded_total)
  from level2_value [OF this(1)] level2_value [OF this(2)] show ?thesis
    unfolding t1 c1 t2 c2 by (simp add: py_round_def round_half_even_def)
qed

section \<open>Properties of Level 1\<close>

subsection \<open>The counter holds the number of occurrences of each token\<close>

lemma counter_add_keys: "fst ` set (counter_add m x) = insert x (fst ` set m)"
  by (induction m x rule: counter_add.induct) auto

lemma counter_add_distinct: "distinct (map fst m) \<Longrightarrow> distinct (map fst (counter_add m x))"
proof (induction m x rule: counter_add.induct)
  case (1 x)
  then show ?case by simp
next
  case (2 k c m x)
  show ?case
  proof (cases "k = x")
    case True
    with 2 show ?thesis by simp
  next
    case False
    with 2 have "distinct (map fst (counter_add m x))" and "k \<notin> fst ` set m" by simp_all
    moreover from False \<open>k \<notin> fst ` set m\<close> have "k \<notin> fst ` set (counter_add m x)"
      by (simp add: counter_add_keys)
    ultimately show ?thesis using False by simp
  qed
qed

lemma counter_add_lookup:
  "map_of (counter_add m x) k =
     (if k = x then Some (case map_of m x of None \<Rightarrow> 1 | Some c \<Rightarrow> c + 1) else map_of m k)"
  by (induction m x rule: counter_add.induct) auto

lemma counts_ok_step:
  assumes "counts_ok m xs"
  shows "counts_ok (counter_add m x) (xs @ [x])"
proof -
  from assms have d: "distinct (map fst m)" and k: "fst ` set m = set xs"
    and l: "\<And>t. t \<in> set xs \<Longrightarrow> map_of m t = Some (count_list xs t)"
    by (simp_all add: counts_ok_def)
  have "map_of (counter_add m x) t = Some (count_list (xs @ [x]) t)" if "t \<in> set (xs @ [x])" for t
  proof (cases "t = x")
    case True
    show ?thesis
    proof (cases "x \<in> set xs")
      case True
      with l [of x] \<open>t = x\<close> show ?thesis by (simp add: counter_add_lookup)
    next
      case False
      with k have "map_of m x = None" by (simp add: map_of_eq_None_iff)
      moreover from False have "count_list xs x = 0" by (simp add: count_list_0_iff)
      ultimately show ?thesis using \<open>t = x\<close> by (simp add: counter_add_lookup)
    qed
  next
    case False
    with that have "t \<in> set xs" by simp
    with l [of t] False show ?thesis by (simp add: counter_add_lookup)
  qed
  with d k show ?thesis
    by (simp add: counts_ok_def counter_add_distinct counter_add_keys)
qed

lemma counts_ok_foldl: "counts_ok m xs \<Longrightarrow> counts_ok (foldl counter_add m ys) (xs @ ys)"
proof (induction ys arbitrary: m xs)
  case Nil
  then show ?case by simp
next
  case (Cons y ys)
  from Cons.IH [OF counts_ok_step [OF Cons.prems, of y]] show ?case by simp
qed

lemma Counter_ok: "counts_ok (Counter xs) xs"
  using counts_ok_foldl [of "[]" "[]" xs] by (simp add: Counter_def counts_ok_def)

lemma counts_ok_values:
  assumes "counts_ok m xs"
  shows "map snd m = map (count_list xs) (map fst m)"
proof -
  have "snd p = count_list xs (fst p)" if "p \<in> set m" for p
  proof -
    from assms have d: "distinct (map fst m)" by (simp add: counts_ok_def)
    from that have "(fst p, snd p) \<in> set m" by simp
    from map_of_is_SomeI [OF d this] have "map_of m (fst p) = Some (snd p)" .
    moreover from that assms have "fst p \<in> set xs"
      unfolding counts_ok_def by force
    ultimately show ?thesis using assms by (simp add: counts_ok_def)
  qed
  then show ?thesis by simp
qed

lemma Counter_sum:
  "sum_list (map h (map snd (Counter xs))) = (\<Sum>t\<in>set xs. h (count_list xs t))"
proof -
  have ok: "counts_ok (Counter xs) xs" by (rule Counter_ok)
  then have d: "distinct (map fst (Counter xs))" and k: "set (map fst (Counter xs)) = set xs"
    by (simp_all add: counts_ok_def)
  have "map h (map snd (Counter xs)) = map (\<lambda>t. h (count_list xs t)) (map fst (Counter xs))"
    by (simp only: counts_ok_values [OF ok] map_map comp_def)
  then have "sum_list (map h (map snd (Counter xs)))
      = sum_list (map (\<lambda>t. h (count_list xs t)) (map fst (Counter xs)))"
    by (rule arg_cong)
  also have "\<dots> = (\<Sum>t\<in>set (map fst (Counter xs)). h (count_list xs t))"
    by (rule sum_list_distinct_conv_sum_set [OF d])
  finally show ?thesis by (simp only: k)
qed

lemma Counter_total: "sum_list (map snd (Counter xs)) = length xs"
  using Counter_sum [of "\<lambda>c. c" xs] by (simp add: sum_count_set)

lemma Counter_keys: "length (Counter xs) = card (set xs)"
proof -
  have ok: "counts_ok (Counter xs) xs" by (rule Counter_ok)
  then have "card (set xs) = card (set (map fst (Counter xs)))" by (simp add: counts_ok_def)
  also have "\<dots> = length (map fst (Counter xs))"
    using ok by (intro distinct_card) (simp add: counts_ok_def)
  finally show ?thesis by simp
qed

lemma Counter_values_pos:
  assumes "c \<in> set (map snd (Counter xs))"
  shows "0 < c"
proof -
  from assms have "c \<in> set (map (count_list xs) (map fst (Counter xs)))"
    by (simp only: counts_ok_values [OF Counter_ok])
  then obtain t where "t \<in> set xs" "c = count_list xs t"
    using Counter_ok [of xs] by (auto simp: counts_ok_def)
  then show ?thesis using count_list_0_iff [of xs t] by simp
qed

subsection \<open>The score is the specification's formula\<close>

lemma sum_gen_total:
  "(\<And>c. c \<in> set cs \<Longrightarrow> f c = Inr (g c)) \<Longrightarrow> sum_gen f cs acc = Inr (acc + sum_list (map g cs))"
  by (induction cs arbitrary: acc) (simp_all add: add.assoc)

lemma entropy_term_pos:
  "0 < c \<Longrightarrow> 0 < tot \<Longrightarrow>
     entropy_term tot c = Inr (real c / real tot * ln (real c / real tot))"
  by (simp add: entropy_term_def py_div_def py_log_def not_le)

lemma shannon_entropy_Counter:
  "shannon_entropy tokens =
     - sum_list (map (\<lambda>c. real c / real (length tokens) * ln (real c / real (length tokens)))
                   (map snd (Counter tokens)))"
  by (simp only: Counter_sum shannon_entropy_def)

lemma level1_score_spec:
  assumes "30 \<le> length tokens"
  shows "level1_score tokens = Inr (spec_level1_score tokens)"
proof -
  let ?n = "length tokens"
  let ?g = "\<lambda>c. real c / real ?n * ln (real c / real ?n)"
  from assms have n: "0 < ?n" by auto
  have s: "sum_gen (entropy_term ?n) (map snd (Counter tokens)) 0
             = Inr (- shannon_entropy tokens)"
  proof -
    have "sum_gen (entropy_term ?n) (map snd (Counter tokens)) 0
            = Inr (0 + sum_list (map ?g (map snd (Counter tokens))))"
      by (rule sum_gen_total) (simp only: entropy_term_pos [OF Counter_values_pos n])
    then show ?thesis by (simp only: shannon_entropy_Counter) simp
  qed
  from assms have "1 < real ?n" by simp
  then have l: "0 < ln (real ?n)" by (rule ln_gt_zero)
  then have lg: "py_log (real ?n) = Inr (ln (real ?n))" and "ln (real ?n) \<noteq> 0"
    using n by (simp_all add: py_log_def)
  then show ?thesis using n
    by (simp add: level1_score_def Let_def Counter_total s py_div_def spec_level1_score_def
          length_remdups_card_conv)
qed

lemma level1_screen_value:
  assumes "30 \<le> length (word_tokens s)"
  shows "level1_screen (PStr s) =
           Inr (level_result (60 \<le> spec_level1_score (word_tokens s))
                  (py_round (spec_level1_score (word_tokens s)) 2)
                  (if 60 \<le> spec_level1_score (word_tokens s) then ''OK'' else ''Low signal''))"
  using assms level1_score_spec [OF assms]
  by (simp add: level1_screen_def Let_def word_tokens_def)

lemma level1_screen_short:
  assumes "length (word_tokens s) < 30"
  shows "level1_screen (PStr s) = Inr (level_result False 0 ''Too short'')"
  using assms by (simp add: level1_screen_def Let_def word_tokens_def)

lemma level1_screen_not_text:
  assumes "\<forall>s. v \<noteq> PStr s"
  shows "level1_screen v = Inr (level_result False 0 ''Invalid input'')"
  using assms by (cases v) (auto simp: level1_screen_def)

subsection \<open>Tokens that are all different\<close>

lemma count_list_distinct: "distinct xs \<Longrightarrow> t \<in> set xs \<Longrightarrow> count_list xs t = 1"
  by (induction xs) (auto simp: count_list_0_iff)

lemma shannon_entropy_distinct:
  assumes "distinct tokens" and "tokens \<noteq> []"
  shows "shannon_entropy tokens = ln (real (length tokens))"
proof -
  let ?n = "real (length tokens)"
  from assms(2) have n: "0 < ?n" by simp
  have "shannon_entropy tokens = - (\<Sum>t\<in>set tokens. 1 / ?n * ln (1 / ?n))"
    unfolding shannon_entropy_def using assms(1) by (simp add: count_list_distinct)
  also have "\<dots> = - (real (card (set tokens)) * (1 / ?n * ln (1 / ?n)))"
    by simp
  also have "card (set tokens) = length tokens"
    using assms(1) by (rule distinct_card)
  also have "- (?n * (1 / ?n * ln (1 / ?n))) = - ln (1 / ?n)"
    using n by simp
  also have "\<dots> = ln ?n"
    using n by (simp add: ln_div)
  finally show ?thesis .
qed

lemma spec_level1_score_distinct:
  assumes "distinct tokens" and "2 \<le> length tokens"
  shows "spec_level1_score tokens = 100"
proof -
  from assms(2) have ne: "tokens \<noteq> []" by auto
  from assms(2) have "1 < real (length tokens)" by simp
  then have "0 < ln (real (length tokens))" by (rule ln_gt_zero)
  then show ?thesis
    using assms ne
    by (simp add: spec_level1_score_def shannon_entropy_distinct distinct_card)
qed

end
